theory Spec2Isabelle
  imports Complex_Main "HOL-Library.AList"
begin

section \<open>Data model of \<open>Account.py\<close>\<close>

text \<open>
  The source annotates balances, amounts and the credit limit as \<open>float\<close>. They are
  modelled as \<open>real\<close>: comparison, addition and subtraction are exact, and rounding,
  infinities and NaN of binary floating point are outside this model. The conversion
  \<open>float(x)\<close> of the constructors is therefore the identity.

  An operation record is a Python \<open>dict\<close> from field names to values of several types.
  It is an association list in insertion order; \<open>pyval\<close> is the sum of the value types
  that occur. \<open>datetime.now()\<close> reads the clock: every operation takes the reading
  \<open>now\<close> as an argument.
\<close>

type_synonym datetime = nat

datatype pyval = VStr string | VNum real | VBool bool | VTime datetime

type_synonym oprecord = "(string \<times> pyval) list"


text \<open>\<open>ValueError\<close> is the only exception the source raises. Its messages are Russian
  text; \<open>msg\<close> names the three of them.\<close>

datatype msg =
    Negative_initial_balance
  | Negative_credit_limit
  | Initial_balance_below_credit_limit

datatype error = ValueError msg

record account =
  holder :: string
  balance :: real
  operations_history :: "oprecord list"

record credit_account = account +
  credit_limit :: real

section \<open>class \<open>Account\<close>\<close>

definition Account_init :: "string \<Rightarrow> real \<Rightarrow> error + account" where
  "Account_init account_holder bal =
     (if bal < 0 then Inl (ValueError Negative_initial_balance)
      else Inr \<lparr>holder = account_holder, balance = bal, operations_history = []\<rparr>)"




definition get_balance :: "'a account_scheme \<Rightarrow> real" where
  "get_balance self = balance self"

definition get_history :: "'a account_scheme \<Rightarrow> oprecord list" where
  "get_history self = map (\<lambda>record. record) (operations_history self)"

section \<open>class \<open>CreditAccount\<close>\<close>

text \<open>The constructor checks the limit, stores it, checks the balance against it and
  then runs the constructor of \<open>Account\<close>, whose own check is part of the path.\<close>

definition CreditAccount_init :: "string \<Rightarrow> real \<Rightarrow> real \<Rightarrow> error + credit_account" where
  "CreditAccount_init account_holder bal limit =
     (if limit < 0 then Inl (ValueError Negative_credit_limit)
      else if bal < - limit then Inl (ValueError Initial_balance_below_credit_limit)
      else case Account_init account_holder bal of
             Inl e \<Rightarrow> Inl e
           | Inr base \<Rightarrow>
               Inr \<lparr>holder = holder base, balance = balance base,
                    operations_history = operations_history base,
                    credit_limit = limit\<rparr>)"




section \<open>Sequences of calls\<close>







section \<open>\<open>Task1.py\<close> and \<open>Task2.py\<close>\<close>

text \<open>\<open>range(frm, to + 1)\<close> is the list \<open>[frm..to]\<close>, empty when \<open>to < frm\<close>; the loop adds
  its elements to \<open>total\<close> from left to right.\<close>

definition sum_distance :: "int \<Rightarrow> int \<Rightarrow> int" where
  "sum_distance frm to =
     (let (frm, to) = (if frm > to then (to, frm) else (frm, to))
      in fold (\<lambda>num total. total + num) [frm..to] 0)"


section \<open>Observations on histories\<close>

text \<open>The predicates below are not in the source. They say what a caller can observe
  of one call from the state before it and the state after it.\<close>





section \<open>Construction of a credit account\<close>

text \<open>The constructor of \<open>CreditAccount\<close> returns an account exactly when neither the
  limit nor the initial balance is negative.\<close>

lemma CreditAccount_init_succeeds_iff:
  "(\<exists>c. CreditAccount_init h b l = Inr c) \<longleftrightarrow> 0 \<le> l \<and> 0 \<le> b"
  by (simp add: CreditAccount_init_def Account_init_def)

text \<open>
  C1. The claim: constructing a credit account succeeds exactly when the limit is not
  negative and the initial balance is at least minus the limit, so that
  \<open>CreditAccount("Bob", -30, 50)\<close> is an account with balance \<open>-30\<close>. The constructor
  passes both of its own checks at that input and then fails in the constructor of
  \<open>Account\<close>, which rejects every negative balance.
\<close>

theorem CreditAccount_init_Bob_rejected:
  "CreditAccount_init ''Bob'' (- 30) 50 = Inl (ValueError Negative_initial_balance)"
  by (simp add: CreditAccount_init_def Account_init_def)

section \<open>What each branch of an operation returns\<close>













section \<open>Recorded failures\<close>









section \<open>One record per call\<close>






section \<open>Withdrawal from a credit account\<close>



section \<open>Deposit into a credit account\<close>



section \<open>Deposit followed by withdrawal\<close>



section \<open>Bounds on the balance\<close>















section \<open>Summation over a range\<close>

lemma fold_add: "fold (\<lambda>num total. total + num) xs (acc :: int) = acc + sum_list xs"
  by (induction xs arbitrary: acc) simp_all

lemma sum_list_upto: "sum_list [i..j] = \<Sum> {i..j}"
  using sum_list_distinct_conv_sum_set [of "[i..j]" "\<lambda>x. x"] by simp

text \<open>
  C8. \<open>sum_distance frm to\<close> is the sum of all integers from the smaller bound to the
  larger one, both included, whichever of the two comes first; \<open>sum_distance 5 5 = 5\<close>,
  \<open>sum_distance 3 1 = 6\<close> and \<open>sum_distance 10 1 = 55\<close>.
\<close>

theorem sum_distance_sums_range:
  "sum_distance frm to = \<Sum> {min frm to .. max frm to} \<and>
   sum_distance frm to = sum_distance to frm \<and>
   sum_distance 5 5 = 5 \<and> sum_distance 3 1 = 6 \<and> sum_distance 10 1 = 55"
proof -
  have gen: "sum_distance x y = \<Sum> {min x y .. max x y}" for x y
    by (simp add: sum_distance_def fold_add sum_list_upto min_def max_def)
  have "sum_distance frm to = sum_distance to frm"
    by (simp add: gen min.commute max.commute)
  moreover have "sum_distance 5 5 = 5" "sum_distance 3 1 = 6" "sum_distance 10 1 = 55"
    by code_simp+
  ultimately show ?thesis using gen by simp
qed

section \<open>Trimming and repeating a string\<close>



section \<open>A credit account with limit 0 against a base account\<close>








end
